theory Spec2Isabelle
  imports Complex_Main
begin

section \<open>Data model of \<open>SingleArmPybullet\<close>\<close>

text \<open>
  The arm class of \<open>src/airobot/arm/single_arm_pybullet.py\<close> talks to the physics
  engine through calls on the pybullet module and keeps a few attributes of its own.
  The attributes are a record; every call that leaves the class (a pybullet call, or the
  blocking wait of \<open>airobot.utils.arm_util\<close>) is appended to \<open>sim_log\<close>, oldest
  first, so that "no command was issued" is the statement that the log did not change.
  Python floats are idealised as reals.
\<close>

datatype error =
    ValueError | TypeError | RuntimeError | AssertionError | KeyError | IndexError
  | PybulletError | InvalidStep

text \<open>A joint goal is "float or list" in the source.\<close>

datatype jval = Scalar real | Vector "real list"

datatype control_mode = POSITION_CONTROL | VELOCITY_CONTROL | TORQUE_CONTROL

datatype quantity = JointPosition | JointVelocity

text \<open>
  The calls, with their arguments in the order: robot id, joint id(s), control mode,
  target (absent for torque control), force(s).
\<close>

datatype event =
    SetJointMotorControlArray int "int list" control_mode "real list option" "real list"
  | SetJointMotorControl2 int int control_mode "jval option" jval
  | ResetJointState int int jval real
  | GetLinkState int int
  | CalculateInverseKinematics int int "real list" "real list option"
  | WaitToReachJntGoal jval "string option" quantity

record arm =
  robot_id :: int
  arm_jnt_names :: "string list"
  jnt_to_id :: "string \<rightharpoonup> int"
  arm_jnt_ids :: "int list"
  ee_link_id :: int
  max_torques :: "real list"
  step_sim_mode :: bool
  in_torque_mode :: "bool list"
  sim_log :: "event list"

text \<open>
  What the class gets back from its collaborators, none of which is under \<open>src/\<close>:
  the link state and the inverse kinematics of the physics engine, the convergence
  waiter \<open>wait_to_reach_jnt_goal\<close>, and \<open>to_quat\<close> and
  \<open>linear_interpolate_path\<close> of \<open>airobot.utils.common\<close>. Each is a parameter;
  the answers of the engine and of the waiter may depend on everything issued so far.
\<close>

record collaborators =
  getLinkState :: "arm \<Rightarrow> real list \<times> real list"
  calculateInverseKinematics :: "arm \<Rightarrow> real list \<Rightarrow> real list option \<Rightarrow> real list"
  wait_to_reach_jnt_goal :: "arm \<Rightarrow> jval \<Rightarrow> string option \<Rightarrow> quantity \<Rightarrow> bool"
  to_quat :: "real list \<Rightarrow> real list"
  linear_interpolate_path :: "real list \<Rightarrow> real list \<Rightarrow> real \<Rightarrow> error + real list list"

type_synonym 'a outcome = "(error + 'a) \<times> arm"

definition arm_dof :: "arm \<Rightarrow> nat" where
  "arm_dof s = length (arm_jnt_names s)"

definition arm_jnt_names_set :: "arm \<Rightarrow> string set" where
  "arm_jnt_names_set s = set (arm_jnt_names s)"

definition emit :: "event \<Rightarrow> arm \<Rightarrow> arm" where
  "emit c s = s\<lparr>sim_log := sim_log s @ [c]\<rparr>"

text \<open>
  The engine checks the arguments of a call before it acts on it. A single-joint call
  takes numbers: a list as target, force or reset value is a \<open>TypeError\<close>. An
  array call takes one target and one force per joint index: lists of another length are
  refused with the engine's own error. A refused call raises and commands nothing.
\<close>

fun engine_rejects :: "event \<Rightarrow> error option" where
  "engine_rejects (SetJointMotorControlArray r ids m tgt forces) =
     (if length forces \<noteq> length ids then Some PybulletError
      else
        (case tgt of
           None \<Rightarrow> None
         | Some targets \<Rightarrow> if length targets \<noteq> length ids then Some PybulletError else None))"
| "engine_rejects (SetJointMotorControl2 r i m tgt force) =
     (case force of
        Vector f \<Rightarrow> Some TypeError
      | Scalar f \<Rightarrow>
          (case tgt of Some (Vector x) \<Rightarrow> Some TypeError | Some (Scalar x) \<Rightarrow> None | None \<Rightarrow> None))"
| "engine_rejects (ResetJointState r i v vel) =
     (case v of Vector x \<Rightarrow> Some TypeError | Scalar x \<Rightarrow> None)"
| "engine_rejects (GetLinkState r i) = None"
| "engine_rejects (CalculateInverseKinematics r i pos ori) = None"
| "engine_rejects (WaitToReachJntGoal tgt joint_name q) = None"

definition issue :: "event \<Rightarrow> arm \<Rightarrow> unit outcome" where
  "issue c s = (case engine_rejects c of Some e \<Rightarrow> (Inl e, s) | None \<Rightarrow> (Inr (), emit c s))"

text \<open>\<open>list.index\<close>: the first position of the element, \<open>None\<close> where Python raises.\<close>

fun index_of :: "'a list \<Rightarrow> 'a \<Rightarrow> nat option" where
  "index_of [] x = None"
| "index_of (y # ys) x = (if y = x then Some 0 else map_option Suc (index_of ys x))"

section \<open>Joint velocity and joint position commands\<close>

text \<open>The tail of \<open>set_jvel\<close> (lines 220-231): the outcome once the command is out.\<close>

definition jvel_outcome :: "collaborators \<Rightarrow> jval \<Rightarrow> string option \<Rightarrow> bool \<Rightarrow> arm \<Rightarrow> bool outcome" where
  "jvel_outcome E tgt_vel joint_name wait s =
     (if \<not> step_sim_mode s then
        (if wait then
           (Inr (wait_to_reach_jnt_goal E s tgt_vel joint_name JointVelocity),
            emit (WaitToReachJntGoal tgt_vel joint_name JointVelocity) s)
         else (Inr True, s))
      else (Inr False, s))"

definition set_jvel :: "collaborators \<Rightarrow> jval \<Rightarrow> string option \<Rightarrow> bool \<Rightarrow> arm \<Rightarrow> bool outcome" where
  "set_jvel E velocity joint_name wait s =
     (case joint_name of
        None \<Rightarrow>
          (case velocity of
             Scalar x \<Rightarrow> (Inl TypeError, s)
           | Vector v \<Rightarrow>
               if length v \<noteq> arm_dof s then (Inl ValueError, s)
               else
                 (case issue (SetJointMotorControlArray (robot_id s) (arm_jnt_ids s)
                                VELOCITY_CONTROL (Some v) (max_torques s)) s of
                    (Inl e, s') \<Rightarrow> (Inl e, s')
                  | (Inr u, s') \<Rightarrow> jvel_outcome E velocity None wait s'))
      | Some j \<Rightarrow>
          if j \<notin> arm_jnt_names_set s then (Inl TypeError, s)
          else
            (case index_of (arm_jnt_names s) j of
               None \<Rightarrow> (Inl ValueError, s)
             | Some arm_jnt_idx \<Rightarrow>
                 if length (max_torques s) \<le> arm_jnt_idx then (Inl IndexError, s)
                 else
                   (case jnt_to_id s j of
                      None \<Rightarrow> (Inl KeyError, s)
                    | Some jnt_id \<Rightarrow>
                        (case issue (SetJointMotorControl2 (robot_id s) jnt_id
                                       VELOCITY_CONTROL (Some velocity)
                                       (Scalar (max_torques s ! arm_jnt_idx))) s of
                           (Inl e, s') \<Rightarrow> (Inl e, s')
                         | (Inr u, s') \<Rightarrow> jvel_outcome E velocity (Some j) wait s'))))"

definition reset_joint_state :: "string \<Rightarrow> jval \<Rightarrow> real \<Rightarrow> arm \<Rightarrow> unit outcome" where
  "reset_joint_state jnt_name jpos jvel s =
     (case jnt_to_id s jnt_name of
        None \<Rightarrow> (Inl KeyError, s)
      | Some jnt_id \<Rightarrow> issue (ResetJointState (robot_id s) jnt_id jpos jvel) s)"

text \<open>The loop of lines 129-133 over \<open>enumerate(self.arm_jnt_names)\<close>.\<close>

fun reset_joints :: "(nat \<times> string) list \<Rightarrow> real list \<Rightarrow> arm \<Rightarrow> unit outcome" where
  "reset_joints [] tgt_pos s = (Inr (), s)"
| "reset_joints ((idx, jnt) # rest) tgt_pos s =
     (if length tgt_pos \<le> idx then (Inl IndexError, s)
      else
        (case reset_joint_state jnt (Scalar (tgt_pos ! idx)) 0 s of
           (Inl e, s') \<Rightarrow> (Inl e, s')
         | (Inr u, s') \<Rightarrow> reset_joints rest tgt_pos s'))"

text \<open>The tail of \<open>set_jpos\<close> (lines 162-171).\<close>

definition jpos_outcome ::
  "collaborators \<Rightarrow> jval \<Rightarrow> string option \<Rightarrow> bool \<Rightarrow> bool \<Rightarrow> bool \<Rightarrow> arm \<Rightarrow> bool outcome" where
  "jpos_outcome E tgt_pos joint_name wait ignore_physics success s =
     (if \<not> step_sim_mode s \<and> wait \<and> \<not> ignore_physics then
        (Inr (wait_to_reach_jnt_goal E s tgt_pos joint_name JointPosition),
         emit (WaitToReachJntGoal tgt_pos joint_name JointPosition) s)
      else (Inr success, s))"

definition set_jpos ::
  "collaborators \<Rightarrow> jval \<Rightarrow> string option \<Rightarrow> bool \<Rightarrow> bool \<Rightarrow> arm \<Rightarrow> bool outcome" where
  "set_jpos E position joint_name wait ignore_physics s =
     (case joint_name of
        None \<Rightarrow>
          (case position of
             Scalar x \<Rightarrow> (Inl TypeError, s)
           | Vector v \<Rightarrow>
               if length v \<noteq> arm_dof s then (Inl ValueError, s)
               else if ignore_physics then
                 (case set_jvel E (Vector (replicate (arm_dof s) 0)) None False s of
                    (Inl e, s1) \<Rightarrow> (Inl e, s1)
                  | (Inr b, s1) \<Rightarrow>
                      (case reset_joints (enumerate 0 (arm_jnt_names s1)) v s1 of
                         (Inl e, s2) \<Rightarrow> (Inl e, s2)
                       | (Inr u, s2) \<Rightarrow>
                           jpos_outcome E position None wait ignore_physics True s2))
               else
                 (case issue (SetJointMotorControlArray (robot_id s) (arm_jnt_ids s)
                                POSITION_CONTROL (Some v) (max_torques s)) s of
                    (Inl e, s') \<Rightarrow> (Inl e, s')
                  | (Inr u, s') \<Rightarrow>
                      jpos_outcome E position None wait ignore_physics False s'))
      | Some j \<Rightarrow>
          if j \<notin> arm_jnt_names_set s then (Inl TypeError, s)
          else
            (case index_of (arm_jnt_names s) j of
               None \<Rightarrow> (Inl ValueError, s)
             | Some arm_jnt_idx \<Rightarrow>
                 if length (max_torques s) \<le> arm_jnt_idx then (Inl IndexError, s)
                 else
                   (case jnt_to_id s j of
                      None \<Rightarrow> (Inl KeyError, s)
                    | Some jnt_id \<Rightarrow>
                        if ignore_physics then
                          (case set_jvel E (Scalar 0) (Some j) False s of
                             (Inl e, s1) \<Rightarrow> (Inl e, s1)
                           | (Inr b, s1) \<Rightarrow>
                               (case reset_joint_state j position 0 s1 of
                                  (Inl e, s2) \<Rightarrow> (Inl e, s2)
                                | (Inr u, s2) \<Rightarrow>
                                    jpos_outcome E position (Some j) wait ignore_physics True s2))
                        else
                          (case issue (SetJointMotorControl2 (robot_id s) jnt_id
                                         POSITION_CONTROL (Some position)
                                         (Scalar (max_torques s ! arm_jnt_idx))) s of
                             (Inl e, s') \<Rightarrow> (Inl e, s')
                           | (Inr u, s') \<Rightarrow>
                               jpos_outcome E position (Some j) wait ignore_physics False s'))))"

section \<open>Torque mode\<close>

text \<open>\<open>_is_in_torque_mode\<close> (lines 585-590); \<open>all\<close> of the flags for the whole arm.\<close>

definition is_in_torque_mode :: "string option \<Rightarrow> arm \<Rightarrow> error + bool" where
  "is_in_torque_mode joint_name s =
     (case joint_name of
        None \<Rightarrow> Inr (list_all (\<lambda>b. b) (in_torque_mode s))
      | Some j \<Rightarrow>
          (case index_of (arm_jnt_names s) j of
             None \<Rightarrow> Inl ValueError
           | Some jnt_id \<Rightarrow>
               if length (in_torque_mode s) \<le> jnt_id then Inl IndexError
               else Inr (in_torque_mode s ! jnt_id)))"

definition set_jtorq :: "jval \<Rightarrow> string option \<Rightarrow> bool \<Rightarrow> arm \<Rightarrow> bool outcome" where
  "set_jtorq torque joint_name wait s =
     (case is_in_torque_mode joint_name s of
        Inl e \<Rightarrow> (Inl e, s)
      | Inr in_mode \<Rightarrow>
          if \<not> in_mode then (Inl RuntimeError, s)
          else
            (case joint_name of
               None \<Rightarrow>
                 (case torque of
                    Scalar x \<Rightarrow> (Inl TypeError, s)
                  | Vector v \<Rightarrow>
                      if length v \<noteq> arm_dof s then (Inl ValueError, s)
                      else
                        (case issue (SetJointMotorControlArray (robot_id s) (arm_jnt_ids s)
                                       TORQUE_CONTROL None v) s of
                           (Inl e, s') \<Rightarrow> (Inl e, s')
                         | (Inr u, s') \<Rightarrow> (Inr True, s')))
             | Some j \<Rightarrow>
                 if j \<notin> arm_jnt_names_set s then (Inl ValueError, s)
                 else
                   (case jnt_to_id s j of
                      None \<Rightarrow> (Inl KeyError, s)
                    | Some jnt_id \<Rightarrow>
                        (case issue (SetJointMotorControl2 (robot_id s) jnt_id TORQUE_CONTROL
                                       None torque) s of
                           (Inl e, s') \<Rightarrow> (Inl e, s')
                         | (Inr u, s') \<Rightarrow> (Inr True, s')))))"

definition enable_torque_control :: "string option \<Rightarrow> arm \<Rightarrow> unit outcome" where
  "enable_torque_control joint_name s =
     (case joint_name of
        None \<Rightarrow>
          (case issue (SetJointMotorControlArray (robot_id s) (arm_jnt_ids s) VELOCITY_CONTROL
                         (Some (replicate (arm_dof s) 0)) (replicate (arm_dof s) 0)) s of
             (Inl e, s1) \<Rightarrow> (Inl e, s1)
           | (Inr u, s1) \<Rightarrow> (Inr (), s1\<lparr>in_torque_mode := replicate (arm_dof s1) True\<rparr>))
      | Some j \<Rightarrow>
          (case jnt_to_id s j of
             None \<Rightarrow> (Inl KeyError, s)
           | Some jnt_id \<Rightarrow>
               (case issue (SetJointMotorControl2 (robot_id s) jnt_id VELOCITY_CONTROL
                              (Some (Scalar 0)) (Scalar 0)) s of
                  (Inl e, s1) \<Rightarrow> (Inl e, s1)
                | (Inr u, s1) \<Rightarrow>
                    (case index_of (arm_jnt_names s1) j of
                       None \<Rightarrow> (Inl ValueError, s1)
                     | Some arm_jnt_id \<Rightarrow>
                         if length (in_torque_mode s1) \<le> arm_jnt_id then (Inl IndexError, s1)
                         else (Inr (),
                               s1\<lparr>in_torque_mode :=
                                    (in_torque_mode s1)[arm_jnt_id := True]\<rparr>)))))"

definition disable_torque_control ::
  "collaborators \<Rightarrow> string option \<Rightarrow> arm \<Rightarrow> unit outcome" where
  "disable_torque_control E joint_name s =
     (case joint_name of
        None \<Rightarrow>
          (case set_jvel E (Vector (replicate (arm_dof s) 0)) None False s of
             (Inl e, s1) \<Rightarrow> (Inl e, s1)
           | (Inr b, s1) \<Rightarrow> (Inr (), s1\<lparr>in_torque_mode := replicate (arm_dof s1) False\<rparr>))
      | Some j \<Rightarrow>
          (case set_jvel E (Scalar 0) (Some j) False s of
             (Inl e, s1) \<Rightarrow> (Inl e, s1)
           | (Inr b, s1) \<Rightarrow>
               (case index_of (arm_jnt_names s1) j of
                  None \<Rightarrow> (Inl ValueError, s1)
                | Some arm_jnt_id \<Rightarrow>
                    if length (in_torque_mode s1) \<le> arm_jnt_id then (Inl IndexError, s1)
                    else (Inr (),
                          s1\<lparr>in_torque_mode := (in_torque_mode s1)[arm_jnt_id := False]\<rparr>))))"

section \<open>Moving the end effector along a line\<close>

text \<open>
  \<open>get_ee_pose\<close> reads the link state and returns position and quaternion; the
  rotation matrix and the Euler angles it also derives are not used by the caller
  modelled here and are left out.
\<close>

definition get_ee_pose :: "collaborators \<Rightarrow> arm \<Rightarrow> (real list \<times> real list) \<times> arm" where
  "get_ee_pose E s = (getLinkState E s, emit (GetLinkState (robot_id s) (ee_link_id s)) s)"

definition compute_ik ::
  "collaborators \<Rightarrow> real list \<Rightarrow> real list option \<Rightarrow> arm \<Rightarrow> real list \<times> arm" where
  "compute_ik E pos ori s =
     (let ori' = map_option (to_quat E) ori;
          jnt_poss = calculateInverseKinematics E s pos ori'
      in (take (arm_dof s) jnt_poss,
          emit (CalculateInverseKinematics (robot_id s) (ee_link_id s) pos ori') s))"

text \<open>The first loop of \<open>move_ee_xyz\<close> (lines 337-341).\<close>

fun way_jnt_positions ::
  "collaborators \<Rightarrow> real list list \<Rightarrow> real list \<Rightarrow> arm \<Rightarrow> real list list \<times> arm" where
  "way_jnt_positions E [] quat s = ([], s)"
| "way_jnt_positions E (w # ws) quat s =
     (case compute_ik E w (Some quat) s of
        (tgt_jnt_poss, s1) \<Rightarrow>
          (case way_jnt_positions E ws quat s1 of
             (rest, s2) \<Rightarrow> (tgt_jnt_poss # rest, s2)))"

text \<open>The second loop (lines 342-345), started with \<open>success = False\<close>.\<close>

fun set_jpos_each :: "collaborators \<Rightarrow> real list list \<Rightarrow> bool \<Rightarrow> arm \<Rightarrow> bool outcome" where
  "set_jpos_each E [] success s = (Inr success, s)"
| "set_jpos_each E (jnt_poss # rest) success s =
     (case set_jpos E (Vector jnt_poss) None True False s of
        (Inl e, s') \<Rightarrow> (Inl e, s')
      | (Inr success', s') \<Rightarrow> set_jpos_each E rest success' s')"

definition move_ee_xyz :: "collaborators \<Rightarrow> real list \<Rightarrow> real \<Rightarrow> arm \<Rightarrow> bool outcome" where
  "move_ee_xyz E delta_xyz eef_step s =
     (if step_sim_mode s then (Inl AssertionError, s)
      else
        (case get_ee_pose E s of
           ((pos, quat), s1) \<Rightarrow>
             (case linear_interpolate_path E pos delta_xyz eef_step of
                Inl e \<Rightarrow> (Inl e, s1)
              | Inr waypoints \<Rightarrow>
                  (case way_jnt_positions E waypoints quat s1 of
                     (jps, s2) \<Rightarrow> set_jpos_each E jps False s2))))"

text \<open>Enabling torque control for all joints, then disabling it for all joints.\<close>

definition enable_then_disable :: "collaborators \<Rightarrow> arm \<Rightarrow> arm" where
  "enable_then_disable E s =
     snd (disable_torque_control E None (snd (enable_torque_control None s)))"

section \<open>The path planner\<close>

text \<open>
  Modelled from the spec: \<open>linear_interpolate_path\<close> of \<open>airobot.utils.common\<close>,
  which \<open>move_ee_xyz\<close> calls and which is not among the sources. The specification
  (section 4.4) gives it as \<open>linear_interpolate(origin, displacement, step)\<close>: it
  "fails with invalid step if step <= 0. Computes the number of steps as
  ceil(norm(displacement)/step); produces that many intermediate points plus the exact
  endpoint; if displacement's norm is zero, returns a single-point sequence equal to
  origin". The intermediate points are taken one step apart from the origin on, so that
  all \<open>n\<close> of them lie before the endpoint: at distance \<open>k * step\<close> for
  \<open>k = 0, ..., n - 1\<close>. The norm is the Euclidean one, over the reals. The function has
  the type \<open>move_ee_xyz\<close> expects of its planner.
\<close>

definition vec_norm :: "real list \<Rightarrow> real" where
  "vec_norm d = sqrt (sum_list (map (\<lambda>x. x * x) d))"

definition vec_add :: "real list \<Rightarrow> real list \<Rightarrow> real list" where
  "vec_add a b = map2 (+) a b"

definition vec_scale :: "real \<Rightarrow> real list \<Rightarrow> real list" where
  "vec_scale c a = map (\<lambda>x. c * x) a"

definition linear_interpolate ::
  "real list \<Rightarrow> real list \<Rightarrow> real \<Rightarrow> error + real list list" where
  "linear_interpolate origin displacement step =
     (if step \<le> 0 then Inl InvalidStep
      else if vec_norm displacement = 0 then Inr [origin]
      else
        (let n = nat \<lceil>vec_norm displacement / step\<rceil>
         in Inr (map (\<lambda>k. vec_add origin
                             (vec_scale (real k * step / vec_norm displacement) displacement))
                   [0..<n]
                 @ [vec_add origin displacement])))"

section \<open>A small arm to run the operations on\<close>

definition two_joint_arm :: arm where
  "two_joint_arm =
     \<lparr>robot_id = 0, arm_jnt_names = [''shoulder'', ''elbow''],
      jnt_to_id = [''shoulder'' \<mapsto> 1, ''elbow'' \<mapsto> 2], arm_jnt_ids = [1, 2],
      ee_link_id = 2, max_torques = [150, 28], step_sim_mode = False,
      in_torque_mode = [False, False], sim_log = []\<rparr>"

text \<open>Collaborators whose waiter never reports convergence.\<close>

definition still :: collaborators where
  "still =
     \<lparr>getLinkState = (\<lambda>s. ([0, 0, 0], [0, 0, 0, 1])),
      calculateInverseKinematics = (\<lambda>s pos ori. [0, 0, 0, 0]),
      wait_to_reach_jnt_goal = (\<lambda>s tgt joint_name q. False),
      to_quat = (\<lambda>ori. ori),
      linear_interpolate_path = (\<lambda>start_pos delta_xyz interval. Inr [map2 (+) start_pos delta_xyz])\<rparr>"

text \<open>
  Collaborators for a two-waypoint move: the planner gives the midpoint and the endpoint,
  the inverse kinematics echoes the position, and the waiter reports convergence for the
  goal \<open>[2, 0]\<close> only.
\<close>

definition two_step :: collaborators where
  "two_step =
     \<lparr>getLinkState = (\<lambda>s. ([0, 0, 0], [0, 0, 0, 1])),
      calculateInverseKinematics = (\<lambda>s pos ori. pos),
      wait_to_reach_jnt_goal = (\<lambda>s tgt joint_name q. tgt = Vector [2, 0]),
      to_quat = (\<lambda>ori. ori),
      linear_interpolate_path =
        (\<lambda>start_pos delta_xyz interval. Inr [[1, 0, 0], map2 (+) start_pos delta_xyz])\<rparr>"

section \<open>Facts about \<open>index_of\<close>\<close>

lemma index_of_Some: "index_of xs x = Some i \<Longrightarrow> i < length xs \<and> xs ! i = x"
  by (induction xs arbitrary: i) (auto split: if_splits)

lemma index_of_mem: "x \<in> set xs \<Longrightarrow> \<exists>i. index_of xs x = Some i"
  by (induction xs) auto

lemma index_of_in_set: "index_of xs x = Some i \<Longrightarrow> x \<in> set xs"
  by (induction xs arbitrary: i) (auto split: if_splits)

section \<open>Wrong-length goals\<close>

text \<open>
  C2. A whole-arm goal (no joint name) whose length differs from the number of arm
  joints makes both \<open>set_jpos\<close> and \<open>set_jvel\<close> raise \<open>ValueError\<close>, whatever
  \<open>wait\<close> and \<open>ignore_physics\<close> are, and the arm is left exactly as it was: in
  particular nothing was added to the log of issued calls, neither a motor-control call
  nor a joint-state reset.
\<close>

theorem wrong_length_goal_rejected:
  assumes "length v \<noteq> arm_dof s"
  shows "set_jpos E (Vector v) None wait ignore_physics s = (Inl ValueError, s)
       \<and> set_jvel E (Vector v) None wait s = (Inl ValueError, s)"
  using assms by (simp add: set_jpos_def set_jvel_def)

theorem wrong_length_goal_rejected_witness:
  "length [1::real] \<noteq> arm_dof two_joint_arm
   \<and> set_jpos still (Vector [1]) None True False two_joint_arm = (Inl ValueError, two_joint_arm)
   \<and> set_jvel still (Vector [1]) None True two_joint_arm = (Inl ValueError, two_joint_arm)"
proof -
  have len: "length [1::real] \<noteq> arm_dof two_joint_arm"
    by (simp add: arm_dof_def two_joint_arm_def)
  show ?thesis
    using len wrong_length_goal_rejected [OF len, of still True False] by simp
qed

section \<open>\<open>move_ee_xyz\<close> in step-simulation mode\<close>

text \<open>
  C7. In step-simulation mode \<open>move_ee_xyz\<close> raises \<open>AssertionError\<close> for every
  displacement and step size and leaves the arm as it was: the log of calls is unchanged,
  so no link state was read, no inverse kinematics computed and no joint command issued.
\<close>

theorem move_ee_xyz_step_mode:
  assumes "step_sim_mode s"
  shows "move_ee_xyz E delta_xyz eef_step s = (Inl AssertionError, s)"
  using assms by (simp add: move_ee_xyz_def)

theorem move_ee_xyz_step_mode_witness:
  "step_sim_mode (two_joint_arm\<lparr>step_sim_mode := True\<rparr>)
   \<and> move_ee_xyz still [0.02, 0, 0] 0.005 (two_joint_arm\<lparr>step_sim_mode := True\<rparr>)
       = (Inl AssertionError, two_joint_arm\<lparr>step_sim_mode := True\<rparr>)"
proof -
  have mode: "step_sim_mode (two_joint_arm\<lparr>step_sim_mode := True\<rparr>)" by simp
  show ?thesis
    using mode move_ee_xyz_step_mode [OF mode, of still "[0.02, 0, 0]" "0.005"] by simp
qed

section \<open>The outcome of \<open>move_ee_xyz\<close>\<close>

lemma way_jnt_positions_length:
  "way_jnt_positions E ws quat s = (jps, s') \<Longrightarrow> length jps = length ws"
  by (induction ws arbitrary: s jps s') (auto split: prod.splits)

lemma set_jpos_each_snoc:
  "set_jpos_each E (jps @ [jp]) b s =
     (case set_jpos_each E jps b s of
        (Inl e, s') \<Rightarrow> (Inl e, s')
      | (Inr b', s') \<Rightarrow> set_jpos E (Vector jp) None True False s')"
  by (induction jps arbitrary: b s) (auto split: prod.splits sum.splits)

text \<open>
  C8. In realtime simulation mode, with the waypoints the planner returned (at least one)
  and the joint positions the inverse kinematics gave for them in order, suppose the
  \<open>set_jpos\<close> calls for all waypoints but the last have been made in sequence without
  an exception, the last of them with outcome \<open>earlier\<close>. Then \<open>move_ee_xyz\<close>
  ends exactly as the \<open>set_jpos\<close> call for the last waypoint does, made in the state
  those calls left: same outcome, same final state. The outcome \<open>earlier\<close> is
  arbitrary, so a failed earlier waypoint does not change the result.
\<close>

theorem move_ee_xyz_last_waypoint:
  assumes "\<not> step_sim_mode s"
    and "get_ee_pose E s = ((pos, quat), s1)"
    and "linear_interpolate_path E pos delta_xyz eef_step = Inr waypoints"
    and "way_jnt_positions E waypoints quat s1 = (jps, s2)"
    and "waypoints \<noteq> []"
    and "set_jpos_each E (butlast jps) False s2 = (Inr earlier, s3)"
  shows "move_ee_xyz E delta_xyz eef_step s
           = set_jpos E (Vector (last jps)) None True False s3"
proof -
  have "jps \<noteq> []"
    using assms(4,5) way_jnt_positions_length by fastforce
  then have "set_jpos_each E jps False s2
      = set_jpos_each E (butlast jps @ [last jps]) False s2"
    by simp
  also have "\<dots> = set_jpos E (Vector (last jps)) None True False s3"
    using assms(6) by (simp only: set_jpos_each_snoc prod.case sum.case)
  finally show ?thesis
    using assms(1-4) by (simp add: move_ee_xyz_def)
qed


theorem move_ee_xyz_last_waypoint_witness:
  "\<not> step_sim_mode two_joint_arm
   \<and> get_ee_pose two_step two_joint_arm
       = (([0, 0, 0], [0, 0, 0, 1]), two_joint_arm\<lparr>sim_log := [GetLinkState 0 2]\<rparr>)
   \<and> linear_interpolate_path two_step [0, 0, 0] [2, 0, 0] 1 = Inr [[1, 0, 0], [2, 0, 0]]
   \<and> [[1, 0, 0], [2, 0, 0 :: real]] \<noteq> []
   \<and> way_jnt_positions two_step [[1, 0, 0], [2, 0, 0]] [0, 0, 0, 1]
        (two_joint_arm\<lparr>sim_log := [GetLinkState 0 2]\<rparr>)
       = ([[1, 0], [2, 0]],
          two_joint_arm\<lparr>sim_log :=
            [GetLinkState 0 2,
             CalculateInverseKinematics 0 2 [1, 0, 0] (Some [0, 0, 0, 1]),
             CalculateInverseKinematics 0 2 [2, 0, 0] (Some [0, 0, 0, 1])]\<rparr>)
   \<and> set_jpos_each two_step (butlast [[1, 0], [2, 0]]) False
        (two_joint_arm\<lparr>sim_log :=
            [GetLinkState 0 2,
             CalculateInverseKinematics 0 2 [1, 0, 0] (Some [0, 0, 0, 1]),
             CalculateInverseKinematics 0 2 [2, 0, 0] (Some [0, 0, 0, 1])]\<rparr>)
       = (Inr False,
          two_joint_arm\<lparr>sim_log :=
            [GetLinkState 0 2,
             CalculateInverseKinematics 0 2 [1, 0, 0] (Some [0, 0, 0, 1]),
             CalculateInverseKinematics 0 2 [2, 0, 0] (Some [0, 0, 0, 1]),
             SetJointMotorControlArray 0 [1, 2] POSITION_CONTROL (Some [1, 0]) [150, 28],
             WaitToReachJntGoal (Vector [1, 0]) None JointPosition]\<rparr>)
   \<and> move_ee_xyz two_step [2, 0, 0] 1 two_joint_arm
       = (Inr True,
          two_joint_arm\<lparr>sim_log :=
            [GetLinkState 0 2,
             CalculateInverseKinematics 0 2 [1, 0, 0] (Some [0, 0, 0, 1]),
             CalculateInverseKinematics 0 2 [2, 0, 0] (Some [0, 0, 0, 1]),
             SetJointMotorControlArray 0 [1, 2] POSITION_CONTROL (Some [1, 0]) [150, 28],
             WaitToReachJntGoal (Vector [1, 0]) None JointPosition,
             SetJointMotorControlArray 0 [1, 2] POSITION_CONTROL (Some [2, 0]) [150, 28],
             WaitToReachJntGoal (Vector [2, 0]) None JointPosition]\<rparr>)"
proof -
  let ?s1 = "two_joint_arm\<lparr>sim_log := [GetLinkState 0 2]\<rparr>"
  let ?s2 = "two_joint_arm\<lparr>sim_log :=
            [GetLinkState 0 2,
             CalculateInverseKinematics 0 2 [1, 0, 0] (Some [0, 0, 0, 1]),
             CalculateInverseKinematics 0 2 [2, 0, 0] (Some [0, 0, 0, 1])]\<rparr>"
  let ?s3 = "two_joint_arm\<lparr>sim_log :=
            [GetLinkState 0 2,
             CalculateInverseKinematics 0 2 [1, 0, 0] (Some [0, 0, 0, 1]),
             CalculateInverseKinematics 0 2 [2, 0, 0] (Some [0, 0, 0, 1]),
             SetJointMotorControlArray 0 [1, 2] POSITION_CONTROL (Some [1, 0]) [150, 28],
             WaitToReachJntGoal (Vector [1, 0]) None JointPosition]\<rparr>"
  have h1: "\<not> step_sim_mode two_joint_arm"
    by (simp add: two_joint_arm_def)
  have h2: "get_ee_pose two_step two_joint_arm = (([0, 0, 0], [0, 0, 0, 1]), ?s1)"
    by (simp add: get_ee_pose_def two_step_def two_joint_arm_def emit_def issue_def)
  have h3: "linear_interpolate_path two_step [0, 0, 0] [2, 0, 0] 1 = Inr [[1, 0, 0], [2, 0, 0]]"
    by (simp add: two_step_def)
  have h4: "[[1, 0, 0], [2, 0, 0 :: real]] \<noteq> []"
    by simp
  have h5: "way_jnt_positions two_step [[1, 0, 0], [2, 0, 0]] [0, 0, 0, 1] ?s1
      = ([[1, 0], [2, 0]], ?s2)"
    by (simp add: compute_ik_def two_step_def two_joint_arm_def emit_def issue_def arm_dof_def)
  have h6: "set_jpos_each two_step (butlast [[1, 0], [2, 0]]) False ?s2 = (Inr False, ?s3)"
    by (simp add: set_jpos_def jpos_outcome_def two_step_def two_joint_arm_def emit_def issue_def
        arm_dof_def)
  have last: "set_jpos two_step (Vector (last [[1, 0], [2, 0]])) None True False ?s3
      = (Inr True,
          two_joint_arm\<lparr>sim_log :=
            [GetLinkState 0 2,
             CalculateInverseKinematics 0 2 [1, 0, 0] (Some [0, 0, 0, 1]),
             CalculateInverseKinematics 0 2 [2, 0, 0] (Some [0, 0, 0, 1]),
             SetJointMotorControlArray 0 [1, 2] POSITION_CONTROL (Some [1, 0]) [150, 28],
             WaitToReachJntGoal (Vector [1, 0]) None JointPosition,
             SetJointMotorControlArray 0 [1, 2] POSITION_CONTROL (Some [2, 0]) [150, 28],
             WaitToReachJntGoal (Vector [2, 0]) None JointPosition]\<rparr>)"
    by (simp add: set_jpos_def jpos_outcome_def two_step_def two_joint_arm_def emit_def issue_def
        arm_dof_def)
  show ?thesis
    using h1 h2 h3 h4 h5 h6 last move_ee_xyz_last_waypoint [OF h1 h2 h3 h5 h4 h6]
    by simp
qed

section \<open>The torque-mode guard of \<open>set_jtorq\<close>\<close>

text \<open>
  C1. The flag list has one entry per arm joint. For any torque goal: a whole-arm call
  raises \<open>RuntimeError\<close> as soon as one joint \<open>i\<close> of the arm is not flagged, since
  the check is \<open>all\<close> of the flags; a call naming an arm joint \<open>j\<close> (at position
  \<open>k\<close> of the joint-name list) raises \<open>RuntimeError\<close> when that joint is not
  flagged; in both cases the arm, and so the log of issued calls, is unchanged. When the
  flags allow it and the goal is valid, \<open>set_jtorq\<close> adds exactly the torque-control
  call to the log and returns \<open>True\<close>: for the whole arm a vector with one torque per
  joint, the arm having one joint index per joint; for a named joint known to the
  simulator a single number.
\<close>

theorem set_jtorq_mode_guard:
  assumes flags: "length (in_torque_mode s) = arm_dof s"
  shows "(i < arm_dof s \<and> \<not> in_torque_mode s ! i \<longrightarrow>
            set_jtorq torque None wait s = (Inl RuntimeError, s))
       \<and> (index_of (arm_jnt_names s) j = Some k \<and> \<not> in_torque_mode s ! k \<longrightarrow>
            set_jtorq torque (Some j) wait s = (Inl RuntimeError, s))
       \<and> (list_all (\<lambda>b. b) (in_torque_mode s) \<and> length v = arm_dof s
            \<and> length (arm_jnt_ids s) = arm_dof s \<longrightarrow>
            set_jtorq (Vector v) None wait s =
              (Inr True,
               emit (SetJointMotorControlArray (robot_id s) (arm_jnt_ids s)
                       TORQUE_CONTROL None v) s))
       \<and> (index_of (arm_jnt_names s) j = Some k \<and> in_torque_mode s ! k
            \<and> jnt_to_id s j = Some jid \<longrightarrow>
            set_jtorq (Scalar x) (Some j) wait s =
              (Inr True,
               emit (SetJointMotorControl2 (robot_id s) jid TORQUE_CONTROL None (Scalar x)) s))"
proof (intro conjI impI)
  assume "i < arm_dof s \<and> \<not> in_torque_mode s ! i"
  with flags have "\<not> list_all (\<lambda>b. b) (in_torque_mode s)"
    by (auto simp: list_all_length)
  then show "set_jtorq torque None wait s = (Inl RuntimeError, s)"
    by (simp add: set_jtorq_def is_in_torque_mode_def)
next
  assume a: "index_of (arm_jnt_names s) j = Some k \<and> \<not> in_torque_mode s ! k"
  then have "k < length (in_torque_mode s)"
    using index_of_Some [of "arm_jnt_names s" j k] flags by (simp add: arm_dof_def)
  with a show "set_jtorq torque (Some j) wait s = (Inl RuntimeError, s)"
    by (simp add: set_jtorq_def is_in_torque_mode_def)
next
  assume "list_all (\<lambda>b. b) (in_torque_mode s) \<and> length v = arm_dof s
      \<and> length (arm_jnt_ids s) = arm_dof s"
  then show "set_jtorq (Vector v) None wait s =
      (Inr True,
       emit (SetJointMotorControlArray (robot_id s) (arm_jnt_ids s) TORQUE_CONTROL None v) s)"
    by (simp add: set_jtorq_def is_in_torque_mode_def issue_def)
next
  assume a: "index_of (arm_jnt_names s) j = Some k \<and> in_torque_mode s ! k
      \<and> jnt_to_id s j = Some jid"
  then have "k < length (in_torque_mode s)" and "j \<in> set (arm_jnt_names s)"
    using index_of_Some [of "arm_jnt_names s" j k] index_of_in_set [of "arm_jnt_names s" j k]
      flags by (simp_all add: arm_dof_def)
  with a show "set_jtorq (Scalar x) (Some j) wait s =
      (Inr True,
       emit (SetJointMotorControl2 (robot_id s) jid TORQUE_CONTROL None (Scalar x)) s)"
    by (simp add: set_jtorq_def is_in_torque_mode_def arm_jnt_names_set_def issue_def)
qed

theorem set_jtorq_mode_guard_witness:
  "length (in_torque_mode two_joint_arm) = arm_dof two_joint_arm
   \<and> \<not> in_torque_mode two_joint_arm ! 1
   \<and> index_of (arm_jnt_names two_joint_arm) ''elbow'' = Some 1
   \<and> set_jtorq (Vector [3, 4]) None False two_joint_arm = (Inl RuntimeError, two_joint_arm)
   \<and> set_jtorq (Scalar 3) (Some ''elbow'') False two_joint_arm
       = (Inl RuntimeError, two_joint_arm)
   \<and> list_all (\<lambda>b. b) (in_torque_mode (two_joint_arm\<lparr>in_torque_mode := [True, True]\<rparr>))
   \<and> length (arm_jnt_ids two_joint_arm) = arm_dof two_joint_arm
   \<and> jnt_to_id two_joint_arm ''elbow'' = Some 2
   \<and> set_jtorq (Vector [3, 4]) None False (two_joint_arm\<lparr>in_torque_mode := [True, True]\<rparr>)
       = (Inr True,
          two_joint_arm\<lparr>in_torque_mode := [True, True],
            sim_log := [SetJointMotorControlArray 0 [1, 2] TORQUE_CONTROL None [3, 4]]\<rparr>)
   \<and> set_jtorq (Scalar 3) (Some ''elbow'') False (two_joint_arm\<lparr>in_torque_mode := [True, True]\<rparr>)
       = (Inr True,
          two_joint_arm\<lparr>in_torque_mode := [True, True],
            sim_log := [SetJointMotorControl2 0 2 TORQUE_CONTROL None (Scalar 3)]\<rparr>)"
  using set_jtorq_mode_guard [where s = two_joint_arm and i = 1 and torque = "Vector [3, 4]"
      and wait = False and j = "''elbow''" and k = 1 and v = "[3, 4]" and jid = 2 and x = 3]
    set_jtorq_mode_guard [where s = two_joint_arm and i = 1 and torque = "Scalar 3"
      and wait = False and j = "''elbow''" and k = 1 and v = "[3, 4]" and jid = 2 and x = 3]
    set_jtorq_mode_guard [where s = "two_joint_arm\<lparr>in_torque_mode := [True, True]\<rparr>"
      and i = 1 and torque = "Scalar 3" and wait = False and j = "''elbow''" and k = 1
      and v = "[3, 4]" and jid = 2 and x = 3]
  by (simp add: two_joint_arm_def arm_dof_def emit_def)

section \<open>Leaving torque mode\<close>

text \<open>
  C4, as amended. \<open>disable_torque_control\<close> goes through \<open>set_jvel\<close>, which bounds
  the velocity command by the configured maximum torques. On an arm with one joint index
  and one maximum torque per joint, disabling for all joints succeeds: the one call
  issued is an array velocity-control call with every target velocity zero and
  \<open>max_torques\<close> as forces, and every flag is \<open>False\<close> afterwards. For a joint
  \<open>j\<close> of the arm (at position \<open>k\<close>, with a maximum torque and a flag configured,
  and known to the simulator) the one call issued is a velocity-control call on that
  joint with target velocity zero and force \<open>max_torques[k]\<close>, and the flag at \<open>k\<close>
  is \<open>False\<close> afterwards. No wait is performed in either mode.
\<close>

theorem disable_torque_control_max_torque:
  "(length (arm_jnt_ids s) = arm_dof s \<and> length (max_torques s) = arm_dof s \<longrightarrow>
      disable_torque_control E None s =
        (Inr (),
         s\<lparr>sim_log := sim_log s @
              [SetJointMotorControlArray (robot_id s) (arm_jnt_ids s) VELOCITY_CONTROL
                 (Some (replicate (arm_dof s) 0)) (max_torques s)],
           in_torque_mode := replicate (arm_dof s) False\<rparr>))
   \<and> (index_of (arm_jnt_names s) j = Some k \<and> k < length (max_torques s)
        \<and> k < length (in_torque_mode s) \<and> jnt_to_id s j = Some jid \<longrightarrow>
      disable_torque_control E (Some j) s =
        (Inr (),
         s\<lparr>sim_log := sim_log s @
              [SetJointMotorControl2 (robot_id s) jid VELOCITY_CONTROL
                 (Some (Scalar 0)) (Scalar (max_torques s ! k))],
           in_torque_mode := (in_torque_mode s)[k := False]\<rparr>))"
proof (intro conjI impI)
  assume "length (arm_jnt_ids s) = arm_dof s \<and> length (max_torques s) = arm_dof s"
  then show "disable_torque_control E None s =
     (Inr (),
      s\<lparr>sim_log := sim_log s @
           [SetJointMotorControlArray (robot_id s) (arm_jnt_ids s) VELOCITY_CONTROL
              (Some (replicate (arm_dof s) 0)) (max_torques s)],
        in_torque_mode := replicate (arm_dof s) False\<rparr>)"
    by (simp add: disable_torque_control_def set_jvel_def jvel_outcome_def issue_def
        emit_def arm_dof_def)
next
  assume a: "index_of (arm_jnt_names s) j = Some k \<and> k < length (max_torques s)
        \<and> k < length (in_torque_mode s) \<and> jnt_to_id s j = Some jid"
  then have "j \<in> set (arm_jnt_names s)"
    using index_of_in_set [of "arm_jnt_names s" j k] by simp
  with a show "disable_torque_control E (Some j) s =
        (Inr (),
         s\<lparr>sim_log := sim_log s @
              [SetJointMotorControl2 (robot_id s) jid VELOCITY_CONTROL
                 (Some (Scalar 0)) (Scalar (max_torques s ! k))],
           in_torque_mode := (in_torque_mode s)[k := False]\<rparr>)"
    by (simp add: disable_torque_control_def set_jvel_def jvel_outcome_def issue_def
        emit_def arm_jnt_names_set_def)
qed

theorem disable_torque_control_max_torque_witness:
  "length (arm_jnt_ids two_joint_arm) = arm_dof two_joint_arm
   \<and> length (max_torques two_joint_arm) = arm_dof two_joint_arm
   \<and> disable_torque_control still None (two_joint_arm\<lparr>in_torque_mode := [True, True]\<rparr>) =
       (Inr (),
        two_joint_arm\<lparr>in_torque_mode := [False, False],
          sim_log :=
            [SetJointMotorControlArray 0 [1, 2] VELOCITY_CONTROL (Some [0, 0]) [150, 28]]\<rparr>)
   \<and> index_of (arm_jnt_names two_joint_arm) ''elbow'' = Some 1
   \<and> 1 < length (max_torques two_joint_arm)
   \<and> 1 < length (in_torque_mode two_joint_arm)
   \<and> jnt_to_id two_joint_arm ''elbow'' = Some 2
   \<and> disable_torque_control still (Some ''elbow'')
        (two_joint_arm\<lparr>in_torque_mode := [True, True]\<rparr>) =
       (Inr (),
        two_joint_arm\<lparr>in_torque_mode := [True, False],
          sim_log := [SetJointMotorControl2 0 2 VELOCITY_CONTROL (Some (Scalar 0)) (Scalar 28)]\<rparr>)"
  using disable_torque_control_max_torque
    [of "two_joint_arm\<lparr>in_torque_mode := [True, True]\<rparr>" still "''elbow''" 1 2]
  by (simp add: two_joint_arm_def arm_dof_def)

text \<open>
  C4 as stated fails: with maximum torques 150 and 28, disabling torque control for all
  joints issues a single call, whose forces are 150 and 28; no call with zero forces is
  issued.
\<close>

theorem disable_torque_control_force_counterexample:
  "sim_log (snd (disable_torque_control still None
                   (two_joint_arm\<lparr>in_torque_mode := [True, True]\<rparr>)))
     = [SetJointMotorControlArray 0 [1, 2] VELOCITY_CONTROL (Some [0, 0]) [150, 28]]
   \<and> SetJointMotorControlArray 0 [1, 2] VELOCITY_CONTROL (Some [0, 0]) [0, 0]
       \<notin> set (sim_log (snd (disable_torque_control still None
                   (two_joint_arm\<lparr>in_torque_mode := [True, True]\<rparr>))))"
  by (simp add: disable_torque_control_def set_jvel_def jvel_outcome_def issue_def emit_def
      arm_dof_def two_joint_arm_def still_def)

section \<open>Velocity commands without waiting\<close>

text \<open>
  C5, as amended. For a valid velocity goal, \<open>set_jvel\<close> with \<open>wait=False\<close>
  issues exactly the velocity-control call and performs no wait; it returns \<open>True\<close>
  in realtime simulation mode and \<open>False\<close> in step-simulation mode. A valid goal is a
  vector with one velocity per joint, on an arm with one joint index and one maximum
  torque per joint; or a single number for a joint \<open>j\<close> of the arm (at position
  \<open>k\<close>, with a maximum torque configured and known to the simulator).
\<close>

theorem set_jvel_no_wait:
  "(length v = arm_dof s \<and> length (arm_jnt_ids s) = arm_dof s
      \<and> length (max_torques s) = arm_dof s \<longrightarrow>
      set_jvel E (Vector v) None False s =
        (Inr (\<not> step_sim_mode s),
         emit (SetJointMotorControlArray (robot_id s) (arm_jnt_ids s) VELOCITY_CONTROL
                 (Some v) (max_torques s)) s))
   \<and> (index_of (arm_jnt_names s) j = Some k \<and> k < length (max_torques s)
        \<and> jnt_to_id s j = Some jid \<longrightarrow>
      set_jvel E (Scalar x) (Some j) False s =
        (Inr (\<not> step_sim_mode s),
         emit (SetJointMotorControl2 (robot_id s) jid VELOCITY_CONTROL
                 (Some (Scalar x)) (Scalar (max_torques s ! k))) s))"
proof (intro conjI impI)
  assume "length v = arm_dof s \<and> length (arm_jnt_ids s) = arm_dof s
      \<and> length (max_torques s) = arm_dof s"
  then show "set_jvel E (Vector v) None False s =
        (Inr (\<not> step_sim_mode s),
         emit (SetJointMotorControlArray (robot_id s) (arm_jnt_ids s) VELOCITY_CONTROL
                 (Some v) (max_torques s)) s)"
    by (simp add: set_jvel_def jvel_outcome_def issue_def emit_def)
next
  assume a: "index_of (arm_jnt_names s) j = Some k \<and> k < length (max_torques s)
        \<and> jnt_to_id s j = Some jid"
  then have "j \<in> set (arm_jnt_names s)"
    using index_of_in_set [of "arm_jnt_names s" j k] by simp
  with a show "set_jvel E (Scalar x) (Some j) False s =
        (Inr (\<not> step_sim_mode s),
         emit (SetJointMotorControl2 (robot_id s) jid VELOCITY_CONTROL
                 (Some (Scalar x)) (Scalar (max_torques s ! k))) s)"
    by (simp add: set_jvel_def jvel_outcome_def issue_def emit_def arm_jnt_names_set_def)
qed

theorem set_jvel_no_wait_witness:
  "length [1, 2 :: real] = arm_dof two_joint_arm
   \<and> length (arm_jnt_ids two_joint_arm) = arm_dof two_joint_arm
   \<and> length (max_torques two_joint_arm) = arm_dof two_joint_arm
   \<and> set_jvel still (Vector [1, 2]) None False two_joint_arm =
       (Inr True,
        two_joint_arm\<lparr>sim_log :=
          [SetJointMotorControlArray 0 [1, 2] VELOCITY_CONTROL (Some [1, 2]) [150, 28]]\<rparr>)
   \<and> index_of (arm_jnt_names two_joint_arm) ''elbow'' = Some 1
   \<and> 1 < length (max_torques two_joint_arm)
   \<and> jnt_to_id two_joint_arm ''elbow'' = Some 2
   \<and> set_jvel still (Scalar 1) (Some ''elbow'') False (two_joint_arm\<lparr>step_sim_mode := True\<rparr>) =
       (Inr False,
        two_joint_arm\<lparr>step_sim_mode := True, sim_log :=
          [SetJointMotorControl2 0 2 VELOCITY_CONTROL (Some (Scalar 1)) (Scalar 28)]\<rparr>)"
  using set_jvel_no_wait [where v = "[1, 2]" and s = two_joint_arm and E = still
      and j = "''elbow''" and k = 1 and jid = 2 and x = 1]
    set_jvel_no_wait [where v = "[1, 2]" and s = "two_joint_arm\<lparr>step_sim_mode := True\<rparr>"
      and E = still and j = "''elbow''" and k = 1 and jid = 2 and x = 1]
  by (simp add: two_joint_arm_def arm_dof_def emit_def)

text \<open>
  C5 as stated fails: in step-simulation mode a valid whole-arm velocity goal with
  \<open>wait=False\<close> is issued and the call returns \<open>False\<close>.
\<close>

theorem set_jvel_step_mode_counterexample:
  "set_jvel still (Vector [1, 2]) None False (two_joint_arm\<lparr>step_sim_mode := True\<rparr>) =
     (Inr False,
      two_joint_arm\<lparr>step_sim_mode := True, sim_log :=
        [SetJointMotorControlArray 0 [1, 2] VELOCITY_CONTROL (Some [1, 2]) [150, 28]]\<rparr>)"
  by (simp add: set_jvel_def jvel_outcome_def issue_def emit_def arm_dof_def two_joint_arm_def)

section \<open>Enabling and then disabling torque control\<close>

lemma enable_all_eq:
  assumes "length (arm_jnt_ids s) = arm_dof s"
  shows "enable_torque_control None s =
     (Inr (),
      s\<lparr>sim_log := sim_log s @
           [SetJointMotorControlArray (robot_id s) (arm_jnt_ids s) VELOCITY_CONTROL
              (Some (replicate (arm_dof s) 0)) (replicate (arm_dof s) 0)],
        in_torque_mode := replicate (arm_dof s) True\<rparr>)"
  using assms by (simp add: enable_torque_control_def issue_def emit_def arm_dof_def)

lemma enable_then_disable_eq:
  assumes "length (arm_jnt_ids s) = arm_dof s" and "length (max_torques s) = arm_dof s"
  shows "enable_then_disable E s =
     s\<lparr>sim_log := sim_log s @
          [SetJointMotorControlArray (robot_id s) (arm_jnt_ids s) VELOCITY_CONTROL
             (Some (replicate (arm_dof s) 0)) (replicate (arm_dof s) 0),
           SetJointMotorControlArray (robot_id s) (arm_jnt_ids s) VELOCITY_CONTROL
             (Some (replicate (arm_dof s) 0)) (max_torques s)],
       in_torque_mode := replicate (arm_dof s) False\<rparr>"
  using assms
  by (simp add: enable_then_disable_def enable_all_eq disable_torque_control_def
      set_jvel_def jvel_outcome_def issue_def emit_def arm_dof_def)

text \<open>
  C6, as amended. Take an arm configured with one joint index and one maximum torque per
  joint, in any state of its flags, mode and log. Then \<open>enable_torque_control()\<close>
  followed by \<open>disable_torque_control()\<close>, both for all joints, succeed and leave
  every per-joint flag \<open>False\<close>. A following \<open>set_jtorq\<close> raises
  \<open>RuntimeError\<close> and leaves the arm and its log of calls unchanged, so no torque
  command is issued: the whole-arm call when the arm has at least one joint, and the call
  that names a joint of the arm.
\<close>

theorem torque_round_trip:
  assumes ids: "length (arm_jnt_ids s) = arm_dof s"
    and torques: "length (max_torques s) = arm_dof s"
  shows "fst (enable_torque_control None s) = Inr ()
   \<and> fst (disable_torque_control E None (snd (enable_torque_control None s))) = Inr ()
   \<and> in_torque_mode (enable_then_disable E s) = replicate (arm_dof s) False
   \<and> (arm_jnt_names s \<noteq> [] \<longrightarrow>
        set_jtorq torque None wait (enable_then_disable E s)
          = (Inl RuntimeError, enable_then_disable E s))
   \<and> (j \<in> set (arm_jnt_names s) \<longrightarrow>
        set_jtorq torque (Some j) wait (enable_then_disable E s)
          = (Inl RuntimeError, enable_then_disable E s))"
proof (intro conjI impI)
  show "fst (enable_torque_control None s) = Inr ()"
    using ids by (simp add: enable_all_eq)
  show "fst (disable_torque_control E None (snd (enable_torque_control None s))) = Inr ()"
    using ids torques
    by (simp add: enable_all_eq disable_torque_control_def set_jvel_def jvel_outcome_def
        issue_def emit_def arm_dof_def)
  show "in_torque_mode (enable_then_disable E s) = replicate (arm_dof s) False"
    using ids torques by (simp add: enable_then_disable_eq)
next
  assume "arm_jnt_names s \<noteq> []"
  then have "\<not> list_all (\<lambda>b. b) (replicate (arm_dof s) False)"
    by (cases "arm_jnt_names s") (simp_all add: arm_dof_def)
  then show "set_jtorq torque None wait (enable_then_disable E s)
      = (Inl RuntimeError, enable_then_disable E s)"
    using ids torques
    by (simp add: set_jtorq_def is_in_torque_mode_def enable_then_disable_eq)
next
  assume "j \<in> set (arm_jnt_names s)"
  then obtain k where k: "index_of (arm_jnt_names s) j = Some k"
    using index_of_mem by fastforce
  then have "k < arm_dof s"
    using index_of_Some [of "arm_jnt_names s" j k] by (simp add: arm_dof_def)
  with k show "set_jtorq torque (Some j) wait (enable_then_disable E s)
      = (Inl RuntimeError, enable_then_disable E s)"
    using ids torques
    by (simp add: set_jtorq_def is_in_torque_mode_def enable_then_disable_eq)
qed

theorem torque_round_trip_witness:
  "length (arm_jnt_ids two_joint_arm) = arm_dof two_joint_arm
   \<and> length (max_torques two_joint_arm) = arm_dof two_joint_arm
   \<and> arm_jnt_names two_joint_arm \<noteq> []
   \<and> ''elbow'' \<in> set (arm_jnt_names two_joint_arm)
   \<and> in_torque_mode (enable_then_disable still two_joint_arm) = [False, False]
   \<and> set_jtorq (Vector [3, 4]) None False (enable_then_disable still two_joint_arm)
       = (Inl RuntimeError, enable_then_disable still two_joint_arm)
   \<and> set_jtorq (Scalar 3) (Some ''elbow'') False (enable_then_disable still two_joint_arm)
       = (Inl RuntimeError, enable_then_disable still two_joint_arm)"
proof -
  have ids: "length (arm_jnt_ids two_joint_arm) = arm_dof two_joint_arm"
    by (simp add: two_joint_arm_def arm_dof_def)
  have torques: "length (max_torques two_joint_arm) = arm_dof two_joint_arm"
    by (simp add: two_joint_arm_def arm_dof_def)
  show ?thesis
    using ids torques
      torque_round_trip [OF ids torques, of still "Vector [3, 4]" False "''elbow''"]
      torque_round_trip [OF ids torques, of still "Scalar 3" False "''elbow''"]
    by (simp add: two_joint_arm_def arm_dof_def)
qed

text \<open>
  C6 as stated, from any state, fails. The whole-arm guard is \<open>all\<close> of the flags,
  which holds of the empty list: on an arm configured without joints the round trip is
  followed by an accepted (empty) torque command. And on a two-joint arm configured with
  a single maximum torque, the velocity command of \<open>disable_torque_control\<close> is
  refused by the engine, the exception leaves before the flags are reset, and both flags
  stay \<open>True\<close>.
\<close>

theorem torque_round_trip_jointless_counterexample:
  "in_torque_mode (enable_then_disable still
      (two_joint_arm\<lparr>arm_jnt_names := [], arm_jnt_ids := [], max_torques := [],
         in_torque_mode := []\<rparr>)) = []
   \<and> set_jtorq (Vector []) None False
       (enable_then_disable still
          (two_joint_arm\<lparr>arm_jnt_names := [], arm_jnt_ids := [], max_torques := [],
             in_torque_mode := []\<rparr>))
      = (Inr True,
         two_joint_arm\<lparr>arm_jnt_names := [], arm_jnt_ids := [], max_torques := [],
           in_torque_mode := [], sim_log :=
             [SetJointMotorControlArray 0 [] VELOCITY_CONTROL (Some []) [],
              SetJointMotorControlArray 0 [] VELOCITY_CONTROL (Some []) [],
              SetJointMotorControlArray 0 [] TORQUE_CONTROL None []]\<rparr>)
   \<and> disable_torque_control still None
       (snd (enable_torque_control None (two_joint_arm\<lparr>max_torques := [150]\<rparr>)))
      = (Inl PybulletError,
         two_joint_arm\<lparr>max_torques := [150], in_torque_mode := [True, True], sim_log :=
           [SetJointMotorControlArray 0 [1, 2] VELOCITY_CONTROL (Some [0, 0]) [0, 0]]\<rparr>)"
  by (simp add: enable_then_disable_def enable_torque_control_def disable_torque_control_def
      set_jvel_def jvel_outcome_def set_jtorq_def is_in_torque_mode_def issue_def emit_def
      arm_dof_def two_joint_arm_def)

section \<open>Joint positions with and without physics\<close>

lemma step_sim_mode_emit: "step_sim_mode (emit c s) = step_sim_mode s"
  by (simp add: issue_def emit_def)

lemma reset_joints_enumerate:
  assumes "set names \<subseteq> dom (jnt_to_id s)" and "n + length names \<le> length v"
  shows "reset_joints (enumerate n names) v s =
     (Inr (),
      s\<lparr>sim_log := sim_log s @
           map (\<lambda>(idx, jnt). ResetJointState (robot_id s) (the (jnt_to_id s jnt))
                                (Scalar (v ! idx)) 0)
             (enumerate n names)\<rparr>)"
  using assms
proof (induction names arbitrary: n s)
  case Nil
  then show ?case by simp
next
  case (Cons jnt names)
  from Cons.prems obtain jid where jid: "jnt_to_id s jnt = Some jid"
    by auto
  let ?s' = "emit (ResetJointState (robot_id s) jid (Scalar (v ! n)) 0) s"
  have "reset_joints (enumerate (Suc n) names) v ?s' =
     (Inr (),
      ?s'\<lparr>sim_log := sim_log ?s' @
           map (\<lambda>(idx, jnt). ResetJointState (robot_id ?s') (the (jnt_to_id ?s' jnt))
                                (Scalar (v ! idx)) 0)
             (enumerate (Suc n) names)\<rparr>)"
    using Cons.prems by (intro Cons.IH) (simp_all add: issue_def emit_def)
  with Cons.prems jid show ?case
    by (simp add: reset_joint_state_def issue_def emit_def)
qed

text \<open>
  C9. With \<open>ignore_physics=True\<close> and a valid goal, \<open>set_jpos\<close> returns \<open>True\<close>
  whatever \<open>wait\<close> and the simulation mode are, and what it issues is, in this order:
  the velocity-control call with zero target velocity, then the reset of each addressed
  joint to its target value (with velocity zero); no wait follows. For the whole arm the
  goal has one position per joint, the arm has one joint index and one maximum torque
  per joint, and every arm joint is known to the simulator; the resets go through the
  joints in the order of the joint-name list. For a single joint \<open>j\<close> of the arm (at
  position \<open>k\<close>, with a maximum torque configured and known to the simulator) the goal
  is a single number, and there is one velocity call and one reset.
\<close>

theorem set_jpos_ignore_physics:
  "(length v = arm_dof s \<and> length (arm_jnt_ids s) = arm_dof s
      \<and> length (max_torques s) = arm_dof s
      \<and> set (arm_jnt_names s) \<subseteq> dom (jnt_to_id s) \<longrightarrow>
      set_jpos E (Vector v) None wait True s =
        (Inr True,
         s\<lparr>sim_log := sim_log s @
              SetJointMotorControlArray (robot_id s) (arm_jnt_ids s) VELOCITY_CONTROL
                (Some (replicate (arm_dof s) 0)) (max_torques s)
              # map (\<lambda>(idx, jnt). ResetJointState (robot_id s) (the (jnt_to_id s jnt))
                                     (Scalar (v ! idx)) 0)
                  (enumerate 0 (arm_jnt_names s))\<rparr>))
   \<and> (index_of (arm_jnt_names s) j = Some k \<and> k < length (max_torques s)
        \<and> jnt_to_id s j = Some jid \<longrightarrow>
      set_jpos E (Scalar x) (Some j) wait True s =
        (Inr True,
         s\<lparr>sim_log := sim_log s @
              [SetJointMotorControl2 (robot_id s) jid VELOCITY_CONTROL
                 (Some (Scalar 0)) (Scalar (max_torques s ! k)),
               ResetJointState (robot_id s) jid (Scalar x) 0]\<rparr>))"
proof (intro conjI impI)
  assume a: "length v = arm_dof s \<and> length (arm_jnt_ids s) = arm_dof s
      \<and> length (max_torques s) = arm_dof s
      \<and> set (arm_jnt_names s) \<subseteq> dom (jnt_to_id s)"
  let ?s1 = "emit (SetJointMotorControlArray (robot_id s) (arm_jnt_ids s) VELOCITY_CONTROL
                (Some (replicate (arm_dof s) 0)) (max_torques s)) s"
  have vel: "set_jvel E (Vector (replicate (arm_dof s) 0)) None False s
      = (Inr (\<not> step_sim_mode s), ?s1)"
    using a by (simp add: set_jvel_def jvel_outcome_def issue_def emit_def)
  have "reset_joints (enumerate 0 (arm_jnt_names ?s1)) v ?s1 =
     (Inr (),
      ?s1\<lparr>sim_log := sim_log ?s1 @
           map (\<lambda>(idx, jnt). ResetJointState (robot_id ?s1) (the (jnt_to_id ?s1 jnt))
                                (Scalar (v ! idx)) 0)
             (enumerate 0 (arm_jnt_names ?s1))\<rparr>)"
    using a by (intro reset_joints_enumerate) (simp_all add: issue_def emit_def arm_dof_def)
  with a vel show "set_jpos E (Vector v) None wait True s =
        (Inr True,
         s\<lparr>sim_log := sim_log s @
              SetJointMotorControlArray (robot_id s) (arm_jnt_ids s) VELOCITY_CONTROL
                (Some (replicate (arm_dof s) 0)) (max_torques s)
              # map (\<lambda>(idx, jnt). ResetJointState (robot_id s) (the (jnt_to_id s jnt))
                                     (Scalar (v ! idx)) 0)
                  (enumerate 0 (arm_jnt_names s))\<rparr>)"
    by (simp add: set_jpos_def jpos_outcome_def issue_def emit_def)
next
  assume a: "index_of (arm_jnt_names s) j = Some k \<and> k < length (max_torques s)
        \<and> jnt_to_id s j = Some jid"
  then have "j \<in> set (arm_jnt_names s)"
    using index_of_in_set [of "arm_jnt_names s" j k] by simp
  with a show "set_jpos E (Scalar x) (Some j) wait True s =
        (Inr True,
         s\<lparr>sim_log := sim_log s @
              [SetJointMotorControl2 (robot_id s) jid VELOCITY_CONTROL
                 (Some (Scalar 0)) (Scalar (max_torques s ! k)),
               ResetJointState (robot_id s) jid (Scalar x) 0]\<rparr>)"
    by (simp add: set_jpos_def set_jvel_def jvel_outcome_def jpos_outcome_def
        reset_joint_state_def issue_def emit_def arm_jnt_names_set_def)
qed

theorem set_jpos_ignore_physics_witness:
  "length [5, 6 :: real] = arm_dof two_joint_arm
   \<and> length (arm_jnt_ids two_joint_arm) = arm_dof two_joint_arm
   \<and> length (max_torques two_joint_arm) = arm_dof two_joint_arm
   \<and> set (arm_jnt_names two_joint_arm) \<subseteq> dom (jnt_to_id two_joint_arm)
   \<and> set_jpos still (Vector [5, 6]) None True True two_joint_arm =
       (Inr True,
        two_joint_arm\<lparr>sim_log :=
          [SetJointMotorControlArray 0 [1, 2] VELOCITY_CONTROL (Some [0, 0]) [150, 28],
           ResetJointState 0 1 (Scalar 5) 0,
           ResetJointState 0 2 (Scalar 6) 0]\<rparr>)
   \<and> index_of (arm_jnt_names two_joint_arm) ''elbow'' = Some 1
   \<and> 1 < length (max_torques two_joint_arm)
   \<and> jnt_to_id two_joint_arm ''elbow'' = Some 2
   \<and> set_jpos still (Scalar 6) (Some ''elbow'') True True two_joint_arm =
       (Inr True,
        two_joint_arm\<lparr>sim_log :=
          [SetJointMotorControl2 0 2 VELOCITY_CONTROL (Some (Scalar 0)) (Scalar 28),
           ResetJointState 0 2 (Scalar 6) 0]\<rparr>)"
  using set_jpos_ignore_physics [where v = "[5, 6]" and s = two_joint_arm and E = still
      and wait = True and j = "''elbow''" and k = 1 and jid = 2 and x = 6]
  by (simp add: two_joint_arm_def arm_dof_def enumerate_eq_zip upt_rec)

text \<open>
  C10. On the physics path (\<open>ignore_physics=False\<close>) with a valid goal (one position
  per joint on an arm with one joint index and one maximum torque per joint, or a single
  number for a joint of the arm), when \<open>wait\<close> is not requested or the simulator is
  in step-simulation mode, \<open>set_jpos\<close> issues exactly the position-control call,
  performs no wait and returns \<open>False\<close>. And whenever \<open>set_jpos\<close> returns
  \<open>True\<close>, for any arguments, either \<open>ignore_physics\<close> was set, or \<open>wait\<close>
  was requested in realtime mode and the value is the answer of the convergence waiter,
  asked after one call \<open>c\<close> was issued.
\<close>

theorem set_jpos_without_wait:
  "(length v = arm_dof s \<and> length (arm_jnt_ids s) = arm_dof s
      \<and> length (max_torques s) = arm_dof s \<and> (\<not> wait \<or> step_sim_mode s) \<longrightarrow>
      set_jpos E (Vector v) None wait False s =
        (Inr False,
         emit (SetJointMotorControlArray (robot_id s) (arm_jnt_ids s) POSITION_CONTROL
                 (Some v) (max_torques s)) s))
   \<and> (index_of (arm_jnt_names s) j = Some k \<and> k < length (max_torques s)
        \<and> jnt_to_id s j = Some jid \<and> (\<not> wait \<or> step_sim_mode s) \<longrightarrow>
      set_jpos E (Scalar x) (Some j) wait False s =
        (Inr False,
         emit (SetJointMotorControl2 (robot_id s) jid POSITION_CONTROL
                 (Some (Scalar x)) (Scalar (max_torques s ! k))) s))
   \<and> (fst (set_jpos E goal joint_name wait ignore_physics s) = Inr True \<longrightarrow>
        ignore_physics
        \<or> (wait \<and> \<not> step_sim_mode s
            \<and> (\<exists>c. wait_to_reach_jnt_goal E (emit c s) goal joint_name JointPosition
                   \<and> snd (set_jpos E goal joint_name wait ignore_physics s)
                       = emit (WaitToReachJntGoal goal joint_name JointPosition) (emit c s))))"
proof (intro conjI impI)
  assume "length v = arm_dof s \<and> length (arm_jnt_ids s) = arm_dof s
      \<and> length (max_torques s) = arm_dof s \<and> (\<not> wait \<or> step_sim_mode s)"
  then show "set_jpos E (Vector v) None wait False s =
        (Inr False,
         emit (SetJointMotorControlArray (robot_id s) (arm_jnt_ids s) POSITION_CONTROL
                 (Some v) (max_torques s)) s)"
    by (auto simp: set_jpos_def jpos_outcome_def issue_def emit_def)
next
  assume a: "index_of (arm_jnt_names s) j = Some k \<and> k < length (max_torques s)
        \<and> jnt_to_id s j = Some jid \<and> (\<not> wait \<or> step_sim_mode s)"
  then have "j \<in> set (arm_jnt_names s)"
    using index_of_in_set [of "arm_jnt_names s" j k] by simp
  with a show "set_jpos E (Scalar x) (Some j) wait False s =
        (Inr False,
         emit (SetJointMotorControl2 (robot_id s) jid POSITION_CONTROL
                 (Some (Scalar x)) (Scalar (max_torques s ! k))) s)"
    by (auto simp: set_jpos_def jpos_outcome_def issue_def emit_def arm_jnt_names_set_def)
next
  assume t: "fst (set_jpos E goal joint_name wait ignore_physics s) = Inr True"
  show "ignore_physics
        \<or> (wait \<and> \<not> step_sim_mode s
            \<and> (\<exists>c. wait_to_reach_jnt_goal E (emit c s) goal joint_name JointPosition
                   \<and> snd (set_jpos E goal joint_name wait ignore_physics s)
                       = emit (WaitToReachJntGoal goal joint_name JointPosition) (emit c s)))"
  proof (cases ignore_physics)
    case True
    then show ?thesis by simp
  next
    case False
    with t show ?thesis
      by (auto simp: set_jpos_def jpos_outcome_def issue_def step_sim_mode_emit
          simp del: engine_rejects.simps
          split: option.splits jval.splits if_splits)
  qed
qed


theorem set_jpos_without_wait_witness:
  "length [5, 6 :: real] = arm_dof two_joint_arm
   \<and> length (arm_jnt_ids two_joint_arm) = arm_dof two_joint_arm
   \<and> length (max_torques two_joint_arm) = arm_dof two_joint_arm
   \<and> set_jpos still (Vector [5, 6]) None False False two_joint_arm =
       (Inr False,
        two_joint_arm\<lparr>sim_log :=
          [SetJointMotorControlArray 0 [1, 2] POSITION_CONTROL (Some [5, 6]) [150, 28]]\<rparr>)
   \<and> index_of (arm_jnt_names two_joint_arm) ''elbow'' = Some 1
   \<and> 1 < length (max_torques two_joint_arm)
   \<and> jnt_to_id two_joint_arm ''elbow'' = Some 2
   \<and> step_sim_mode (two_joint_arm\<lparr>step_sim_mode := True\<rparr>)
   \<and> set_jpos still (Scalar 6) (Some ''elbow'') True False
        (two_joint_arm\<lparr>step_sim_mode := True\<rparr>) =
       (Inr False,
        two_joint_arm\<lparr>step_sim_mode := True, sim_log :=
          [SetJointMotorControl2 0 2 POSITION_CONTROL (Some (Scalar 6)) (Scalar 28)]\<rparr>)
   \<and> fst (set_jpos two_step (Vector [2, 0]) None True False two_joint_arm) = Inr True
   \<and> \<not> step_sim_mode two_joint_arm
   \<and> wait_to_reach_jnt_goal two_step
        (emit (SetJointMotorControlArray 0 [1, 2] POSITION_CONTROL (Some [2, 0]) [150, 28])
           two_joint_arm)
        (Vector [2, 0]) None JointPosition"
proof -
  have t: "fst (set_jpos two_step (Vector [2, 0]) None True False two_joint_arm) = Inr True"
    by (simp add: set_jpos_def jpos_outcome_def two_step_def two_joint_arm_def arm_dof_def
        issue_def emit_def)
  have w: "wait_to_reach_jnt_goal two_step
        (emit (SetJointMotorControlArray 0 [1, 2] POSITION_CONTROL (Some [2, 0]) [150, 28])
           two_joint_arm)
        (Vector [2, 0]) None JointPosition"
    by (simp add: two_step_def)
  show ?thesis
    using t w
      set_jpos_without_wait [where v = "[5, 6]" and s = two_joint_arm and wait = False
        and E = still and j = "''elbow''" and k = 1 and jid = 2 and x = 6
        and goal = "Vector [5, 6]" and joint_name = None and ignore_physics = False]
      set_jpos_without_wait [where v = "[5, 6]" and s = "two_joint_arm\<lparr>step_sim_mode := True\<rparr>"
        and wait = True and E = still and j = "''elbow''" and k = 1 and jid = 2
        and x = 6 and goal = "Vector [5, 6]" and joint_name = None
        and ignore_physics = False]
      set_jpos_without_wait [where v = "[5, 6]" and s = two_joint_arm and wait = True
        and E = two_step and j = "''elbow''" and k = 1 and jid = 2 and x = 6
        and goal = "Vector [2, 0]" and joint_name = None and ignore_physics = False]
    by (simp add: two_joint_arm_def arm_dof_def issue_def emit_def)
qed

section \<open>The waypoints of the planner\<close>

lemma vec_norm_nonneg: "0 \<le> vec_norm d"
  unfolding vec_norm_def by (intro real_sqrt_ge_zero sum_list_nonneg) auto




lemma linear_interpolate_nonempty:
  "linear_interpolate origin displacement step = Inr ws \<Longrightarrow> ws \<noteq> []"
  by (auto simp: linear_interpolate_def Let_def split: if_splits)





end
